theory Spec2Isabelle
  imports Complex_Main
begin

section \<open>The supervised worker of the MCP Ghidra5 Windows service\<close>

text \<open>
  This theory embeds the class \<^verbatim>\<open>MCPGhidra5Service\<close> of
  \<^verbatim>\<open>scripts/service/mcp_ghidra5_service.py\<close>: the stop handler \<^verbatim>\<open>SvcStop\<close>, the launcher
  \<^verbatim>\<open>_start_server\<close>, the monitor loop \<^verbatim>\<open>_monitor_server\<close>, the restart handler
  \<^verbatim>\<open>_handle_server_restart\<close> and the health check \<^verbatim>\<open>_periodic_health_check\<close>.

  The object's fields are a record that every method takes and returns. What a method
  observes of the outside world during one call (the clock, the child process, psutil) is
  a second record, \<open>world\<close>. Every external call that the method makes is appended to the
  field \<open>effects\<close>, every log call to the field \<open>log\<close>. A method returns the state it leaves
  behind together with the exception it raised, if any: Python keeps the assignments made
  before a \<^verbatim>\<open>raise\<close>.
\<close>

subsection \<open>Exceptions, log entries and external calls\<close>

text \<open>
  The exception classes that the modelled calls raise. All of them derive from
  \<^verbatim>\<open>Exception\<close>, so \<^verbatim>\<open>except Exception\<close> catches each of them. \<open>NoSuchProcess\<close> stands for
  \<^verbatim>\<open>psutil.NoSuchProcess\<close> and its subclasses, \<open>TimeoutExpired\<close> for
  \<^verbatim>\<open>subprocess.TimeoutExpired\<close>.
\<close>

datatype exn =
    NoSuchProcess
  | AccessDenied
  | TimeoutExpired
  | FileNotFoundError
  | OSError
  | RuntimeError
  | ValueError
  | OverflowError

datatype severity = Info | Warning | Error

text \<open>
  One constructor for each message text of the source, carrying the values that the
  f-string interpolates.
\<close>

datatype message =
    StopRequested            \<comment> \<open>Service stop requested\<close>
  | AttemptGraceful          \<comment> \<open>Attempting graceful server shutdown\<close>
  | ShutGracefully           \<comment> \<open>Server shut down gracefully\<close>
  | ForcingTermination       \<comment> \<open>Server did not shut down gracefully, forcing termination\<close>
  | ShutdownError exn        \<comment> \<open>Error during server shutdown: e\<close>
  | ServiceStopped           \<comment> \<open>Service stopped\<close>
  | StartingServer           \<comment> \<open>Starting server: cmd\<close>
  | ServerStarted nat        \<comment> \<open>Server started with PID: pid\<close>
  | StartFailed exn          \<comment> \<open>Failed to start server: e\<close>
  | MonitorStarted           \<comment> \<open>Server monitoring thread started\<close>
  | MonitorStopped           \<comment> \<open>Server monitoring thread stopped\<close>
  | ServerTerminated int     \<comment> \<open>Server process terminated with exit code: code\<close>
  | AutoRestartDisabled      \<comment> \<open>Auto-restart disabled, stopping service\<close>
  | MonitorError exn         \<comment> \<open>Error in server monitoring: e\<close>
  | MaxRestartsExceeded int int
      \<comment> \<open>Maximum restarts (max) exceeded in (window)s window. Stopping service.\<close>
  | RestartingIn int nat     \<comment> \<open>Restarting server in (delay) seconds (attempt n)\<close>
  | RestartedOK nat          \<comment> \<open>Server restarted successfully (attempt n)\<close>
  | RestartFailed exn        \<comment> \<open>Failed to restart server: e\<close>
  | ProcessGone              \<comment> \<open>Server process no longer exists\<close>
  | ProcessInfoError exn     \<comment> \<open>Error getting process info: e\<close>
  | MemoryExceeded rat int   \<comment> \<open>Server memory usage (mb) exceeds limit (max)\<close>
  | HighCpu rat              \<comment> \<open>High server CPU usage: pct\<close>
  | HealthCheckError exn     \<comment> \<open>Error in health check: e\<close>

text \<open>
  The calls that leave the object: the service status report, the stop event, the
  operations on the child process (by pid), the join of the monitor thread with its
  timeout in seconds, \<^verbatim>\<open>time.sleep\<close> with its argument, a successful \<^verbatim>\<open>Popen\<close>, and
  \<^verbatim>\<open>WaitForSingleObject\<close> on the stop event with its timeout in milliseconds.
\<close>

datatype effect =
    ReportStopPending
  | SetEvent
  | Terminate nat
  | WaitProc nat int
  | Kill nat
  | Join int
  | Sleep int
  | Launch nat
  | WaitStopEvent int

datatype thread = ControlThread | MonitorThread

subsection \<open>Configuration, state and the outside world\<close>

text \<open>The settings that the modelled methods read, already parsed by \<^verbatim>\<open>configparser\<close>.\<close>

record config =
  auto_restart :: bool
  restart_delay :: int
  max_restarts :: int
  restart_window :: int
  health_check_interval :: int
  shutdown_timeout :: int
  max_memory_mb :: int

text \<open>The defaults of \<^verbatim>\<open>_load_configuration\<close> and of the \<^verbatim>\<open>fallback\<close> arguments.\<close>

definition default_config :: config where
  "default_config = \<lparr> auto_restart = True, restart_delay = 30, max_restarts = 5,
     restart_window = 3600, health_check_interval = 60, shutdown_timeout = 15,
     max_memory_mb = 2048 \<rparr>"

text \<open>
  The fields of the service object. A \<^verbatim>\<open>datetime\<close> is the number of microseconds since
  the epoch; \<open>server_process\<close> holds the pid of the \<^verbatim>\<open>Popen\<close> object; \<open>monitor_thread\<close> tells
  whether the thread object has been created; \<open>stop_event\<close> is the state of \<^verbatim>\<open>hWaitStop\<close>.
  \<open>restart_count\<close> is 0 in \<^verbatim>\<open>__init__\<close> and afterwards only set to 1 or incremented, so it
  is a natural number.
\<close>

record service =
  is_alive :: bool
  stop_event :: bool
  server_process :: "nat option"
  monitor_thread :: bool
  restart_count :: nat
  last_restart :: "int option"
  log :: "(severity \<times> message) list"
  effects :: "effect list"

text \<open>The state that \<^verbatim>\<open>__init__\<close> leaves.\<close>

definition init_service :: service where
  "init_service = \<lparr> is_alive = True, stop_event = False, server_process = None,
     monitor_thread = False, restart_count = 0, last_restart = None, log = [],
     effects = [] \<rparr>"

text \<open>
  The result of \<^verbatim>\<open>_start_server\<close>'s body: the script is not found at any path
  (\<^verbatim>\<open>FileNotFoundError\<close>), \<^verbatim>\<open>Popen\<close> raises, or the child runs under a new pid.
\<close>

datatype launch_outcome = ScriptMissing | SpawnError exn | Spawned nat

text \<open>
  What one call observes: \<open>clock\<close> is \<^verbatim>\<open>datetime.now()\<close>; \<open>poll_res\<close> is the result of
  \<^verbatim>\<open>poll()\<close> (\<open>None\<close> while the child runs); \<open>terminate_res\<close>, \<open>wait_res\<close> and \<open>kill_res\<close>
  give the exception raised by the call on the child, if any; \<open>monitor_running\<close> is
  \<^verbatim>\<open>monitor_thread.is_alive()\<close> as another thread sees it; \<open>stop_signaled\<close> tells whether
  \<^verbatim>\<open>WaitForSingleObject\<close> returned \<^verbatim>\<open>WAIT_OBJECT_0\<close>; \<open>process_res\<close>, \<open>memory_res\<close> and
  \<open>cpu_res\<close> are the results of \<^verbatim>\<open>psutil.Process\<close>, \<^verbatim>\<open>memory_info().rss\<close> and
  \<^verbatim>\<open>cpu_percent()\<close>. A floating-point value is the rational it denotes.
\<close>

record world =
  clock :: int
  poll_res :: "exn + int option"
  terminate_res :: "exn option"
  wait_res :: "exn option"
  kill_res :: "exn option"
  monitor_running :: bool
  launch_res :: launch_outcome
  stop_signaled :: bool
  process_res :: "exn option"
  memory_res :: "exn + int"
  cpu_res :: "exn + rat"

subsection \<open>Logging and sleeping\<close>

text \<open>
  \<^verbatim>\<open>_log_info\<close>, \<^verbatim>\<open>_log_warning\<close> and \<^verbatim>\<open>_log_error\<close> write one entry and swallow every
  failure of the event log.
\<close>

definition log_info :: "message \<Rightarrow> service \<Rightarrow> service" where
  "log_info m s = s\<lparr> log := log s @ [(Info, m)] \<rparr>"

definition log_warning :: "message \<Rightarrow> service \<Rightarrow> service" where
  "log_warning m s = s\<lparr> log := log s @ [(Warning, m)] \<rparr>"

definition log_error :: "message \<Rightarrow> service \<Rightarrow> service" where
  "log_error m s = s\<lparr> log := log s @ [(Error, m)] \<rparr>"

definition emit :: "effect \<Rightarrow> service \<Rightarrow> service" where
  "emit e s = s\<lparr> effects := effects s @ [e] \<rparr>"

text \<open>
  \<^verbatim>\<open>time.sleep\<close> first converts its argument to a signed 64-bit count of nanoseconds:
  the largest whole number of seconds that fits is \<open>(2 ^ 63 - 1) div 10 ^ 9\<close>.
\<close>

definition sleep_limit :: int where
  "sleep_limit = 9223372036"

text \<open>
  \<^verbatim>\<open>time.sleep(d)\<close> for an integer \<open>d\<close>: \<^verbatim>\<open>OverflowError\<close> when the conversion overflows,
  \<^verbatim>\<open>ValueError\<close> for any other negative argument.
\<close>

definition sleep :: "int \<Rightarrow> service \<Rightarrow> service \<times> exn option" where
  "sleep d s =
    (if d < - sleep_limit \<or> sleep_limit < d then (s, Some OverflowError)
     else if d < 0 then (s, Some ValueError)
     else (emit (Sleep d) s, None))"

subsection \<open>SvcStop\<close>

text \<open>
  The body of the \<^verbatim>\<open>try\<close> of \<^verbatim>\<open>SvcStop\<close> for the child \<open>p\<close>, with its two handlers: a
  \<^verbatim>\<open>TimeoutExpired\<close> of \<^verbatim>\<open>wait\<close> is answered with a warning and \<^verbatim>\<open>kill()\<close>; every other
  exception, also one of \<^verbatim>\<open>kill()\<close>, with an error entry. A \<^verbatim>\<open>Popen\<close> object always has
  the attribute \<^verbatim>\<open>terminate\<close>.
\<close>

definition shutdown_server :: "config \<Rightarrow> world \<Rightarrow> nat \<Rightarrow> service \<Rightarrow> service" where
  "shutdown_server cfg w p s =
    (let s1 = emit (Terminate p) (log_info AttemptGraceful s) in
     case terminate_res w of
       Some e \<Rightarrow> log_error (ShutdownError e) s1
     | None \<Rightarrow>
        (let s2 = emit (WaitProc p (shutdown_timeout cfg)) s1 in
         case wait_res w of
           None \<Rightarrow> log_info ShutGracefully s2
         | Some e \<Rightarrow>
            if e = TimeoutExpired then
              (let s3 = emit (Kill p) (log_warning ForcingTermination s2) in
               case kill_res w of
                 None \<Rightarrow> s3
               | Some e' \<Rightarrow> log_error (ShutdownError e') s3)
            else log_error (ShutdownError e) s2))"

text \<open>
  \<^verbatim>\<open>monitor_thread.is_alive()\<close>: the monitor thread itself is running when it asks.
\<close>

definition thread_is_alive :: "world \<Rightarrow> thread \<Rightarrow> bool" where
  "thread_is_alive w caller = (caller = MonitorThread \<or> monitor_running w)"

text \<open>
  \<^verbatim>\<open>SvcStop\<close>, run by the thread \<open>caller\<close>. \<^verbatim>\<open>Thread.join\<close> raises \<^verbatim>\<open>RuntimeError\<close> when
  a thread joins itself; nothing in \<^verbatim>\<open>SvcStop\<close> catches it.
\<close>

definition SvcStop :: "config \<Rightarrow> world \<Rightarrow> thread \<Rightarrow> service \<Rightarrow> service \<times> exn option" where
  "SvcStop cfg w caller s =
    (let s1 = log_info StopRequested s;
         s2 = (emit SetEvent (emit ReportStopPending s1))\<lparr> stop_event := True \<rparr>;
         s3 = s2\<lparr> is_alive := False \<rparr>;
         s4 = (case server_process s3 of
                 None \<Rightarrow> s3
               | Some p \<Rightarrow> shutdown_server cfg w p s3)
     in if monitor_thread s4 \<and> thread_is_alive w caller then
          (if caller = MonitorThread then (s4, Some RuntimeError)
           else (log_info ServiceStopped (emit (Join 5) s4), None))
        else (log_info ServiceStopped s4, None))"

subsection \<open>Starting the worker\<close>

text \<open>
  \<^verbatim>\<open>_start_server\<close> logs the failure and raises it again. The command line is logged
  only once a script has been found.
\<close>

definition start_server :: "world \<Rightarrow> service \<Rightarrow> service \<times> exn option" where
  "start_server w s =
    (case launch_res w of
       ScriptMissing \<Rightarrow>
         (log_error (StartFailed FileNotFoundError) s, Some FileNotFoundError)
     | SpawnError e \<Rightarrow>
         (log_error (StartFailed e) (log_info StartingServer s), Some e)
     | Spawned p \<Rightarrow>
         (log_info (ServerStarted p)
            ((emit (Launch p) (log_info StartingServer s))\<lparr> server_process := Some p \<rparr>),
          None))"

subsection \<open>The restart handler\<close>

text \<open>
  The attribute \<^verbatim>\<open>seconds\<close> of a \<^verbatim>\<open>timedelta\<close> of \<open>d\<close> microseconds: the difference is
  normalised to days, seconds in \<open>0..86399\<close> and microseconds in \<open>0..999999\<close>, with floor
  division, and \<^verbatim>\<open>seconds\<close> is the middle field only.
\<close>

definition td_seconds :: "int \<Rightarrow> int" where
  "td_seconds d = (d div 1000000) mod 86400"

text \<open>
  The restart count after the window check. A \<^verbatim>\<open>datetime\<close> is always true, so the
  first conjunct of the source's test asks whether \<open>last_restart\<close> is set.
\<close>

definition new_restart_count :: "config \<Rightarrow> int \<Rightarrow> service \<Rightarrow> nat" where
  "new_restart_count cfg current_time s =
    (case last_restart s of
       None \<Rightarrow> 1
     | Some t \<Rightarrow>
         if td_seconds (current_time - t) < restart_window cfg
         then restart_count s + 1 else 1)"

text \<open>
  \<^verbatim>\<open>min(base_delay * (2 ** (self.restart_count - 1)), 300)\<close>. The count is at least 1
  here, so the exponent is not negative.
\<close>

definition backoff_delay :: "config \<Rightarrow> nat \<Rightarrow> int" where
  "backoff_delay cfg n = min (restart_delay cfg * 2 ^ (n - 1)) 300"

text \<open>
  What the handler has decided when it reaches \<^verbatim>\<open>time.sleep\<close>: it has returned (or
  \<^verbatim>\<open>SvcStop\<close> has raised), or it is about to wait.
\<close>

datatype decision = Deny "exn option" | Allow int

text \<open>The handler up to its call of \<^verbatim>\<open>time.sleep\<close>.\<close>

definition restart_prepare :: "config \<Rightarrow> world \<Rightarrow> service \<Rightarrow> service \<times> decision" where
  "restart_prepare cfg w s =
    (let s1 = s\<lparr> restart_count := new_restart_count cfg (clock w) s \<rparr> in
     if int (restart_count s1) > max_restarts cfg then
       (let (s2, r) = SvcStop cfg w MonitorThread
              (log_error (MaxRestartsExceeded (max_restarts cfg) (restart_window cfg)) s1)
        in (s2, Deny r))
     else
       (let d = backoff_delay cfg (restart_count s1) in
        (log_info (RestartingIn d (restart_count s1)) s1, Allow d)))"

text \<open>
  The handler after \<^verbatim>\<open>time.sleep\<close>: the old child is killed, whatever \<^verbatim>\<open>kill()\<close> raises
  is dropped, and the worker is started again. \<open>current_time\<close> is the value read at the
  entry of the handler.
\<close>

definition relaunch :: "world \<Rightarrow> int \<Rightarrow> service \<Rightarrow> service" where
  "relaunch w current_time s =
    (let s1 = (case server_process s of None \<Rightarrow> s | Some p \<Rightarrow> emit (Kill p) s);
         (s2, r) = start_server w s1
     in case r of
          Some e \<Rightarrow> log_error (RestartFailed e) s2
        | None \<Rightarrow>
            log_info (RestartedOK (restart_count s2)) (s2\<lparr> last_restart := Some current_time \<rparr>))"

text \<open>\<^verbatim>\<open>_handle_server_restart\<close>, run by the monitor thread.\<close>

definition handle_server_restart :: "config \<Rightarrow> world \<Rightarrow> service \<Rightarrow> service \<times> exn option" where
  "handle_server_restart cfg w s =
    (case restart_prepare cfg w s of
       (s1, Deny r) \<Rightarrow> (s1, r)
     | (s1, Allow d) \<Rightarrow>
        (case sleep d s1 of
           (s2, Some e) \<Rightarrow> (s2, Some e)
         | (s2, None) \<Rightarrow> (relaunch w (clock w) s2, None)))"

text \<open>
  The interleaving in which the control thread runs \<^verbatim>\<open>SvcStop\<close> (observing \<open>wstop\<close>)
  while the monitor thread is blocked in the handler's \<^verbatim>\<open>time.sleep\<close>: the handler reads
  no field between the return of \<^verbatim>\<open>time.sleep\<close> and the relaunch.
\<close>

definition restart_with_stop_during_sleep ::
    "config \<Rightarrow> world \<Rightarrow> world \<Rightarrow> service \<Rightarrow> service" where
  "restart_with_stop_during_sleep cfg w wstop s =
    (case restart_prepare cfg w s of
       (s1, Deny r) \<Rightarrow> s1
     | (s1, Allow d) \<Rightarrow>
        (case sleep d s1 of
           (s2, Some e) \<Rightarrow> s2
         | (s2, None) \<Rightarrow> relaunch w (clock w) (fst (SvcStop cfg wstop ControlThread s2))))"

text \<open>A sequence of crashes, each handled by the restart handler in its own world.\<close>

fun crash_sequence :: "config \<Rightarrow> world list \<Rightarrow> service \<Rightarrow> service" where
  "crash_sequence cfg [] s = s"
| "crash_sequence cfg (w # ws) s = crash_sequence cfg ws (fst (handle_server_restart cfg w s))"

subsection \<open>The monitor loop\<close>

datatype control = Continue | Break

text \<open>\<^verbatim>\<open>time.sleep(interval)\<close> at the end of the \<^verbatim>\<open>try\<close> body.\<close>

definition interval_sleep :: "config \<Rightarrow> service \<Rightarrow> service \<times> (exn + control)" where
  "interval_sleep cfg s =
    (case sleep (health_check_interval cfg) s of
       (s1, Some e) \<Rightarrow> (s1, Inl e)
     | (s1, None) \<Rightarrow> (s1, Inr Continue))"

text \<open>
  The \<^verbatim>\<open>try\<close> body of one iteration of \<^verbatim>\<open>_monitor_server\<close>: the exception that
  leaves it, or how the loop goes on. A \<^verbatim>\<open>Popen\<close> object is always true.
\<close>

definition monitor_try :: "config \<Rightarrow> world \<Rightarrow> service \<Rightarrow> service \<times> (exn + control)" where
  "monitor_try cfg w s =
    (case server_process s of
       None \<Rightarrow> interval_sleep cfg s
     | Some p \<Rightarrow>
        (case poll_res w of
           Inl e \<Rightarrow> (s, Inl e)
         | Inr None \<Rightarrow> interval_sleep cfg s
         | Inr (Some code) \<Rightarrow>
            (let s1 = log_error (ServerTerminated code) s in
             if auto_restart cfg then
               (case handle_server_restart cfg w s1 of
                  (s2, Some e) \<Rightarrow> (s2, Inl e)
                | (s2, None) \<Rightarrow> interval_sleep cfg s2)
             else
               (case SvcStop cfg w MonitorThread (log_info AutoRestartDisabled s1) of
                  (s2, Some e) \<Rightarrow> (s2, Inl e)
                | (s2, None) \<Rightarrow> (s2, Inr Break)))))"

text \<open>One iteration with its \<^verbatim>\<open>except Exception\<close> handler.\<close>

definition monitor_iteration :: "config \<Rightarrow> world \<Rightarrow> service \<Rightarrow> service \<times> control" where
  "monitor_iteration cfg w s =
    (case monitor_try cfg w s of
       (s1, Inl e) \<Rightarrow> (emit (Sleep 30) (log_error (MonitorError e) s1), Continue)
     | (s1, Inr c) \<Rightarrow> (s1, c))"

text \<open>
  The \<^verbatim>\<open>while self.is_alive\<close> loop, one world for each iteration. The result is \<open>None\<close>
  when the loop is still running after the last world.
\<close>

fun monitor_loop :: "config \<Rightarrow> world list \<Rightarrow> service \<Rightarrow> service option" where
  "monitor_loop cfg [] s = (if is_alive s then None else Some s)"
| "monitor_loop cfg (w # ws) s =
    (if is_alive s then
       (case monitor_iteration cfg w s of
          (s1, Break) \<Rightarrow> Some s1
        | (s1, Continue) \<Rightarrow> monitor_loop cfg ws s1)
     else Some s)"

definition monitor_server :: "config \<Rightarrow> world list \<Rightarrow> service \<Rightarrow> service option" where
  "monitor_server cfg ws s =
    map_option (log_info MonitorStopped) (monitor_loop cfg ws (log_info MonitorStarted s))"

subsection \<open>The periodic health check\<close>









subsection \<open>Reading the trace\<close>

text \<open>The arguments of the \<^verbatim>\<open>time.sleep\<close> calls and the pids of the launches, in order.\<close>

fun sleeps :: "effect list \<Rightarrow> int list" where
  "sleeps [] = []"
| "sleeps (Sleep d # es) = d # sleeps es"
| "sleeps (e # es) = sleeps es"

fun launches :: "effect list \<Rightarrow> nat list" where
  "launches [] = []"
| "launches (Launch p # es) = p # launches es"
| "launches (e # es) = launches es"

subsection \<open>Concrete inputs\<close>

text \<open>A world in which the child runs, no call fails and a launch gives pid 4242.\<close>

definition quiet_world :: world where
  "quiet_world = \<lparr> clock = 0, poll_res = Inr None, terminate_res = None, wait_res = None,
     kill_res = None, monitor_running = False, launch_res = Spawned 4242,
     stop_signaled = False, process_res = None, memory_res = Inr 0, cpu_res = Inr 0 \<rparr>"

text \<open>The defaults with a base delay of ten minutes.\<close>

definition long_delay_config :: config where
  "long_delay_config = default_config\<lparr> restart_delay := 600 \<rparr>"

text \<open>
  The window rule as the specification words it, for comparison with
  \<open>new_restart_count\<close>: \<open>elapsed\<close> is the time since the start of the window in
  microseconds, \<open>window\<close> the configured window in seconds.
\<close>

definition spec_restart_count :: "int \<Rightarrow> int \<Rightarrow> nat \<Rightarrow> nat" where
  "spec_restart_count window elapsed prior =
    (if elapsed > window * 1000000 then 1 else prior + 1)"

text \<open>A service whose second restart succeeded at time 0.\<close>

definition restarted_twice :: service where
  "restarted_twice = init_service\<lparr> server_process := Some 4242, restart_count := 2,
     last_restart := Some 0 \<rparr>"

text \<open>A crash exactly one window (3600 s) after the last restart.\<close>

definition boundary_world :: world where
  "boundary_world = quiet_world\<lparr> clock := 3600000000 \<rparr>"

text \<open>A crash one day and ten seconds after the last restart.\<close>

definition next_day_world :: world where
  "next_day_world = quiet_world\<lparr> clock := 86410000000 \<rparr>"

text \<open>A world in which the child has exited at time \<open>t\<close> and a launch gives pid \<open>p\<close>.\<close>

definition crash_at :: "int \<Rightarrow> nat \<Rightarrow> world" where
  "crash_at t p = quiet_world\<lparr> clock := t, poll_res := Inr (Some 1), launch_res := Spawned p \<rparr>"

text \<open>A running service: the worker has pid 4242 and the monitor thread exists.\<close>

definition running_service :: service where
  "running_service = init_service\<lparr> server_process := Some 4242, monitor_thread := True \<rparr>"

text \<open>The world of a stop request while the monitor thread is alive.\<close>

definition stop_world :: world where
  "stop_world = quiet_world\<lparr> monitor_running := True \<rparr>"

text \<open>The same, with a worker that does not exit within the shutdown timeout.\<close>

definition hung_world :: world where
  "hung_world = stop_world\<lparr> wait_res := Some TimeoutExpired \<rparr>"

text \<open>The running service after one stop request.\<close>

definition stopped_service :: service where
  "stopped_service = fst (SvcStop default_config stop_world ControlThread running_service)"

text \<open>The messages that only the restart handler writes.\<close>

fun policy_message :: "message \<Rightarrow> bool" where
  "policy_message (MaxRestartsExceeded m k) = True"
| "policy_message (RestartingIn d n) = True"
| "policy_message (RestartedOK n) = True"
| "policy_message (RestartFailed e) = True"
| "policy_message m = False"

definition policy_entries :: "(severity \<times> message) list \<Rightarrow> (severity \<times> message) list" where
  "policy_entries es = filter (\<lambda>e. policy_message (snd e)) es"

text \<open>The defaults with auto-restart switched off.\<close>

definition no_restart_config :: config where
  "no_restart_config = default_config\<lparr> auto_restart := False \<rparr>"


section \<open>Properties\<close>

subsection \<open>Auxiliary facts\<close>

lemmas upd_defs = log_info_def log_warning_def log_error_def emit_def

lemma sleeps_append: "sleeps (xs @ ys) = sleeps xs @ sleeps ys"
  by (induction xs rule: sleeps.induct) simp_all

lemma launches_append: "launches (xs @ ys) = launches xs @ launches ys"
  by (induction xs rule: launches.induct) simp_all

lemma shutdown_server_fields:
  "is_alive (shutdown_server cfg w p s) = is_alive s"
  "stop_event (shutdown_server cfg w p s) = stop_event s"
  "server_process (shutdown_server cfg w p s) = server_process s"
  "monitor_thread (shutdown_server cfg w p s) = monitor_thread s"
  "restart_count (shutdown_server cfg w p s) = restart_count s"
  "last_restart (shutdown_server cfg w p s) = last_restart s"
  by (simp_all add: shutdown_server_def upd_defs Let_def split: option.splits)

lemma shutdown_server_log:
  "\<exists>es. log (shutdown_server cfg w p s) = log s @ (Info, AttemptGraceful) # es"
  by (simp add: shutdown_server_def upd_defs Let_def split: option.splits)

lemma shutdown_server_trace:
  "launches (effects (shutdown_server cfg w p s)) = launches (effects s)"
  "sleeps (effects (shutdown_server cfg w p s)) = sleeps (effects s)"
  by (simp_all add: shutdown_server_def upd_defs Let_def sleeps_append launches_append
      split: option.splits)

lemma SvcStop_fields:
  "is_alive (fst (SvcStop cfg w c s)) = False"
  "stop_event (fst (SvcStop cfg w c s)) = True"
  "server_process (fst (SvcStop cfg w c s)) = server_process s"
  "monitor_thread (fst (SvcStop cfg w c s)) = monitor_thread s"
  "restart_count (fst (SvcStop cfg w c s)) = restart_count s"
  "last_restart (fst (SvcStop cfg w c s)) = last_restart s"
  by (simp_all add: SvcStop_def shutdown_server_fields upd_defs Let_def split: option.splits)

lemma SvcStop_trace:
  "launches (effects (fst (SvcStop cfg w c s))) = launches (effects s)"
  "sleeps (effects (fst (SvcStop cfg w c s))) = sleeps (effects s)"
  by (simp_all add: SvcStop_def shutdown_server_trace upd_defs Let_def
      sleeps_append launches_append split: option.splits)

lemma SvcStop_log:
  "\<exists>es. log (fst (SvcStop cfg w c s)) = log s @ (Info, StopRequested) # es"
proof (cases "server_process s")
  case None
  then show ?thesis by (simp add: SvcStop_def upd_defs Let_def)
next
  case (Some p)
  let ?t = "(emit SetEvent (emit ReportStopPending (log_info StopRequested s)))
              \<lparr> stop_event := True, is_alive := False \<rparr>"
  obtain es where "log (shutdown_server cfg w p ?t) = log ?t @ (Info, AttemptGraceful) # es"
    using shutdown_server_log by blast
  with Some show ?thesis by (simp add: SvcStop_def upd_defs Let_def)
qed

lemma start_server_fields:
  "is_alive (fst (start_server w s)) = is_alive s"
  "stop_event (fst (start_server w s)) = stop_event s"
  "restart_count (fst (start_server w s)) = restart_count s"
  "last_restart (fst (start_server w s)) = last_restart s"
  by (simp_all add: start_server_def upd_defs split: launch_outcome.splits)

lemma relaunch_fields:
  "is_alive (relaunch w t s) = is_alive s"
  "stop_event (relaunch w t s) = stop_event s"
  "restart_count (relaunch w t s) = restart_count s"
  by (simp_all add: relaunch_def start_server_def upd_defs Let_def case_prod_beta
      split: launch_outcome.splits option.splits)

lemma relaunch_log: "\<exists>es. log (relaunch w t s) = log s @ es"
  by (simp add: relaunch_def start_server_def upd_defs Let_def case_prod_beta
      split: launch_outcome.splits option.splits)

lemma relaunch_effects: "\<exists>es. effects (relaunch w t s) = effects s @ es"
  by (simp add: relaunch_def start_server_def upd_defs Let_def case_prod_beta
      split: launch_outcome.splits option.splits)

lemma new_restart_count_pos: "1 \<le> new_restart_count cfg t s"
  by (simp add: new_restart_count_def split: option.splits)

lemma handler_count:
  "restart_count (fst (handle_server_restart cfg w s)) = new_restart_count cfg (clock w) s"
proof (cases "int (new_restart_count cfg (clock w) s) > max_restarts cfg")
  case True
  then show ?thesis
    using SvcStop_fields(5) [of cfg w MonitorThread
        "log_error (MaxRestartsExceeded (max_restarts cfg) (restart_window cfg))
           (s\<lparr> restart_count := new_restart_count cfg (clock w) s \<rparr>)"]
    by (simp add: handle_server_restart_def restart_prepare_def Let_def upd_defs
        case_prod_beta)
next
  case False
  then show ?thesis
    by (simp add: handle_server_restart_def restart_prepare_def sleep_def Let_def
        relaunch_fields upd_defs split: if_splits)
qed

lemma backoff_delay_le: "backoff_delay cfg n \<le> 300"
  by (simp add: backoff_delay_def)

lemma handler_allow:
  assumes "int (new_restart_count cfg (clock w) s) \<le> max_restarts cfg"
  shows "handle_server_restart cfg w s =
    (let n = new_restart_count cfg (clock w) s; d = backoff_delay cfg n;
         s1 = log_info (RestartingIn d n) (s\<lparr> restart_count := n \<rparr>)
     in if d < 0 then (s1, Some (if d < - sleep_limit then OverflowError else ValueError))
        else (relaunch w (clock w) (emit (Sleep d) s1), None))"
  using assms backoff_delay_le [of cfg "new_restart_count cfg (clock w) s"]
  by (simp add: handle_server_restart_def restart_prepare_def sleep_def sleep_limit_def
      Let_def)

lemma handler_deny:
  assumes "int (new_restart_count cfg (clock w) s) > max_restarts cfg"
  shows "handle_server_restart cfg w s =
    SvcStop cfg w MonitorThread
      (log_error (MaxRestartsExceeded (max_restarts cfg) (restart_window cfg))
         (s\<lparr> restart_count := new_restart_count cfg (clock w) s \<rparr>))"
  using assms
  by (simp add: handle_server_restart_def restart_prepare_def Let_def case_prod_beta)

lemma relaunch_sleeps: "sleeps (effects (relaunch w t s)) = sleeps (effects s)"
  by (simp add: relaunch_def start_server_def upd_defs Let_def case_prod_beta sleeps_append
      split: launch_outcome.splits option.splits)

lemma relaunch_launches:
  "launches (effects (relaunch w t s)) =
     launches (effects s) @ (case launch_res w of Spawned p \<Rightarrow> [p] | _ \<Rightarrow> [])"
  by (simp add: relaunch_def start_server_def upd_defs Let_def case_prod_beta launches_append
      split: launch_outcome.splits option.splits)

lemma relaunch_last_restart:
  "last_restart (relaunch w t s) =
     (case launch_res w of Spawned p \<Rightarrow> Some t | _ \<Rightarrow> last_restart s)"
  by (simp add: relaunch_def start_server_def upd_defs Let_def case_prod_beta
      split: launch_outcome.splits option.splits)

subsection \<open>The restart policy\<close>

text \<open>
  Claim C1. Let \<open>n\<close> be the restart count of a restart decision, \<open>b\<close> the configured
  base delay and \<open>m\<close> the configured maximum. If \<open>n \<le> m\<close>, the delay that the handler
  computes, logs and sleeps is \<open>min (b * 2 ^ (n - 1)) 300\<close> (a negative delay is logged and
  then refused by \<^verbatim>\<open>time.sleep\<close>). If \<open>n > m\<close>, the handler stops the service: no sleep
  and no launch happen, the stop event is set and \<open>is_alive\<close> is false.
\<close>

theorem restart_backoff_or_deny:
  assumes "s' = fst (handle_server_restart cfg w s)" and "n = restart_count s'"
  shows "1 \<le> n \<and>
    (int n \<le> max_restarts cfg \<longrightarrow>
       (\<exists>rest. log s' = log s @
          (Info, RestartingIn (min (restart_delay cfg * 2 ^ (n - 1)) 300) n) # rest) \<and>
       sleeps (effects s') = sleeps (effects s) @
          (if 0 \<le> min (restart_delay cfg * 2 ^ (n - 1)) 300
           then [min (restart_delay cfg * 2 ^ (n - 1)) 300] else [])) \<and>
    (int n > max_restarts cfg \<longrightarrow>
       \<not> is_alive s' \<and> stop_event s' \<and>
       launches (effects s') = launches (effects s) \<and>
       sleeps (effects s') = sleeps (effects s) \<and>
       (\<exists>rest. log s' = log s @
          (Error, MaxRestartsExceeded (max_restarts cfg) (restart_window cfg)) #
          (Info, StopRequested) # rest))"
proof -
  let ?n = "new_restart_count cfg (clock w) s"
  have n: "n = ?n" using assms handler_count by simp
  have pos: "1 \<le> n" using n new_restart_count_pos by simp
  have allow: ?thesis if le: "int n \<le> max_restarts cfg"
  proof -
    let ?d = "backoff_delay cfg ?n"
    let ?s1 = "log_info (RestartingIn ?d ?n) (s\<lparr> restart_count := ?n \<rparr>)"
    have h: "handle_server_restart cfg w s =
        (if ?d < 0
         then (?s1, Some (if ?d < - sleep_limit then OverflowError else ValueError))
         else (relaunch w (clock w) (emit (Sleep ?d) ?s1), None))"
      using handler_allow [of cfg w s] le n by (simp add: Let_def)
    show ?thesis
    proof (cases "?d < 0")
      case True
      with h assms(1) have "s' = ?s1" by simp
      with True le pos n show ?thesis by (simp add: upd_defs backoff_delay_def)
    next
      case False
      with h assms(1) have s': "s' = relaunch w (clock w) (emit (Sleep ?d) ?s1)" by simp
      obtain es where "log s' = log (emit (Sleep ?d) ?s1) @ es"
        using relaunch_log s' by blast
      then have "log s' = log s @ (Info, RestartingIn ?d ?n) # es" by (simp add: upd_defs)
      moreover have "sleeps (effects s') = sleeps (effects s) @ [?d]"
        by (simp add: s' relaunch_sleeps upd_defs sleeps_append)
      ultimately show ?thesis using False le pos n by (simp add: backoff_delay_def)
    qed
  qed
  have deny: ?thesis if gt: "int n > max_restarts cfg"
  proof -
    let ?s1 = "log_error (MaxRestartsExceeded (max_restarts cfg) (restart_window cfg))
         (s\<lparr> restart_count := ?n \<rparr>)"
    have s': "s' = fst (SvcStop cfg w MonitorThread ?s1)"
      using handler_deny [of cfg w s] gt n assms(1) by simp
    obtain es where "log s' = log ?s1 @ (Info, StopRequested) # es"
      using SvcStop_log s' by blast
    then have "log s' = log s @
          (Error, MaxRestartsExceeded (max_restarts cfg) (restart_window cfg)) #
          (Info, StopRequested) # es" by (simp add: upd_defs)
    moreover have "\<not> is_alive s'" "stop_event s'"
      "launches (effects s') = launches (effects s)"
      "sleeps (effects s') = sleeps (effects s)"
      by (simp_all add: s' SvcStop_fields SvcStop_trace upd_defs)
    ultimately show ?thesis using gt pos by simp
  qed
  show ?thesis using allow deny by (cases "int n \<le> max_restarts cfg") auto
qed

lemma quiet_handler:
  "fst (handle_server_restart default_config quiet_world init_service) =
     \<lparr> is_alive = True, stop_event = False, server_process = Some 4242,
       monitor_thread = False, restart_count = 1, last_restart = Some 0,
       log = [(Info, RestartingIn 30 1), (Info, StartingServer), (Info, ServerStarted 4242),
              (Info, RestartedOK 1)],
       effects = [Sleep 30, Launch 4242] \<rparr>"
  by (simp add: handle_server_restart_def restart_prepare_def sleep_def sleep_limit_def relaunch_def
      start_server_def new_restart_count_def backoff_delay_def upd_defs Let_def
      default_config_def quiet_world_def init_service_def)

theorem restart_backoff_or_deny_witness:
  "sleeps (effects (fst (handle_server_restart default_config quiet_world init_service))) = [30]"
  using restart_backoff_or_deny [of "fst (handle_server_restart default_config quiet_world init_service)"
      default_config quiet_world init_service 1]
  by (simp add: quiet_handler)

lemma whole_seconds_less: "(d::int) div 1000000 < k \<longleftrightarrow> d < k * 1000000"
proof -
  define q where "q = d div 1000000"
  define r where "r = d mod 1000000"
  have "d = 1000000 * q + r" "0 \<le> r" "r < 1000000"
    by (simp_all add: q_def r_def)
  then have "q < k \<longleftrightarrow> d < k * 1000000" by linarith
  then show ?thesis by (simp add: q_def)
qed

lemma td_seconds_within_day:
  assumes "0 \<le> d" and "d < 86400000000"
  shows "td_seconds d = d div 1000000"
proof -
  have "0 \<le> d div 1000000" using assms(1) by (simp add: pos_imp_zdiv_nonneg_iff)
  moreover have "d div 1000000 < 86400"
    using assms(2) whole_seconds_less [of d 86400] by simp
  ultimately show ?thesis by (simp add: td_seconds_def)
qed

subsection \<open>The restart window\<close>

text \<open>
  Claim C2, as amended. The window is measured from \<open>last_restart\<close>, the time of the crash
  that led to the last successful relaunch. With no such time recorded the count becomes 1.
  With one recorded at most a day ago and not in the future, the count becomes 1 when
  the elapsed time is at least the configured window (in whole seconds) and is
  incremented otherwise.
\<close>

theorem restart_count_window:
  assumes "s' = fst (handle_server_restart cfg w s)"
  shows "(last_restart s = None \<longrightarrow> restart_count s' = 1) \<and>
    (\<forall>t. last_restart s = Some t \<and> 0 \<le> clock w - t \<and> clock w - t < 86400000000 \<longrightarrow>
       restart_count s' =
         (if restart_window cfg * 1000000 \<le> clock w - t then 1 else restart_count s + 1))"
proof -
  have c: "restart_count s' = new_restart_count cfg (clock w) s"
    using assms handler_count by simp
  have "restart_count s' =
         (if restart_window cfg * 1000000 \<le> clock w - t then 1 else restart_count s + 1)"
    if "last_restart s = Some t" "0 \<le> clock w - t" "clock w - t < 86400000000" for t
    using that c td_seconds_within_day [of "clock w - t"]
      whole_seconds_less [of "clock w - t" "restart_window cfg"]
    by (simp add: new_restart_count_def)
  moreover have "last_restart s = None \<longrightarrow> restart_count s' = 1"
    using c by (simp add: new_restart_count_def)
  ultimately show ?thesis by blast
qed

theorem restart_count_window_witness:
  "restart_count (fst (handle_server_restart default_config boundary_world restarted_twice)) = 1"
  using restart_count_window [of "fst (handle_server_restart default_config boundary_world restarted_twice)"
      default_config boundary_world restarted_twice]
  by (simp add: boundary_world_def quiet_world_def restarted_twice_def init_service_def
      default_config_def)

text \<open>
  Claim C2 as stated fails on the boundary: exactly 3600 s after the last restart the
  elapsed time does not exceed the window, so the stated rule increments 2 to 3, while
  the handler resets the count to 1.
\<close>

theorem window_boundary_counterexample:
  "last_restart restarted_twice = Some 0 \<and>
   \<not> clock boundary_world - 0 > restart_window default_config * 1000000 \<and>
   spec_restart_count (restart_window default_config) (clock boundary_world - 0)
     (restart_count restarted_twice) = 3 \<and>
   restart_count (fst (handle_server_restart default_config boundary_world restarted_twice)) = 1"
  by (simp add: handler_count new_restart_count_def td_seconds_def spec_restart_count_def
      boundary_world_def quiet_world_def restarted_twice_def init_service_def
      default_config_def)

text \<open>
  Beyond one day the handler compares only the \<^verbatim>\<open>seconds\<close> field of the difference:
  86410 s after the last restart the count is incremented although the window of 3600 s
  has long passed.
\<close>

lemma day_wrap_increments:
  "clock next_day_world - 0 > restart_window default_config * 1000000 \<and>
   restart_count (fst (handle_server_restart default_config next_day_world restarted_twice)) = 3"
  by (simp add: handler_count new_restart_count_def td_seconds_def
      next_day_world_def quiet_world_def restarted_twice_def init_service_def
      default_config_def)

subsection \<open>The first restart\<close>

text \<open>
  Claim C10, as amended. When no last restart is recorded, the handler sets the count to
  1 whatever it was. If at least one restart is allowed, the delay it logs and sleeps is
  \<open>min b 300\<close> for the base delay \<open>b\<close>, hence \<open>b\<close> itself whenever \<open>b \<le> 300\<close>. The
  timestamp is set to the time read at the entry of the handler when the relaunch
  succeeds, and stays absent when no launch happened.
\<close>

theorem first_restart:
  assumes "last_restart s = None" and "s' = fst (handle_server_restart cfg w s)"
  shows "restart_count s' = 1 \<and>
    (1 \<le> max_restarts cfg \<longrightarrow>
       (\<exists>rest. log s' = log s @
          (Info, RestartingIn (min (restart_delay cfg) 300) 1) # rest) \<and>
       sleeps (effects s') = sleeps (effects s) @
          (if 0 \<le> restart_delay cfg then [min (restart_delay cfg) 300] else [])) \<and>
    (1 \<le> max_restarts cfg \<and> 0 \<le> restart_delay cfg \<and> (\<exists>p. launch_res w = Spawned p) \<longrightarrow>
       last_restart s' = Some (clock w)) \<and>
    (launches (effects s') = launches (effects s) \<longrightarrow> last_restart s' = None)"
proof -
  have n: "new_restart_count cfg (clock w) s = 1"
    using assms(1) by (simp add: new_restart_count_def)
  have c: "restart_count s' = 1" using assms(2) handler_count n by simp
  let ?d = "min (restart_delay cfg) 300"
  have d: "backoff_delay cfg (Suc 0) = ?d" by (simp add: backoff_delay_def)
  let ?s1 = "log_info (RestartingIn ?d 1) (s\<lparr> restart_count := 1 \<rparr>)"
  show ?thesis
  proof (cases "1 \<le> max_restarts cfg")
    case True
    then have h: "handle_server_restart cfg w s =
        (if restart_delay cfg < 0
         then (?s1, Some (if ?d < - sleep_limit then OverflowError else ValueError))
         else (relaunch w (clock w) (emit (Sleep ?d) ?s1), None))"
      using handler_allow [of cfg w s] n d by (auto simp add: Let_def min_def)
    show ?thesis
    proof (cases "restart_delay cfg < 0")
      case neg: True
      with h assms(2) have "s' = ?s1" by simp
      with neg True c assms(1) show ?thesis by (auto simp add: upd_defs)
    next
      case nonneg: False
      with h assms(2) have s': "s' = relaunch w (clock w) (emit (Sleep ?d) ?s1)" by simp
      obtain es where "log s' = log (emit (Sleep ?d) ?s1) @ es"
        using relaunch_log s' by blast
      then have lg: "log s' = log s @ (Info, RestartingIn ?d 1) # es" by (simp add: upd_defs)
      have sl: "sleeps (effects s') = sleeps (effects s) @ [?d]"
        by (simp add: s' relaunch_sleeps upd_defs sleeps_append)
      have la: "launches (effects s') = launches (effects s) @
          (case launch_res w of Spawned p \<Rightarrow> [p] | _ \<Rightarrow> [])"
        by (simp add: s' relaunch_launches upd_defs launches_append)
      have lr: "last_restart s' =
          (case launch_res w of Spawned p \<Rightarrow> Some (clock w) | _ \<Rightarrow> None)"
        using assms(1) by (simp add: s' relaunch_last_restart upd_defs
            split: launch_outcome.splits)
      show ?thesis using c lg sl la lr nonneg True
        by (auto split: launch_outcome.splits)
    qed
  next
    case False
    let ?s1 = "log_error (MaxRestartsExceeded (max_restarts cfg) (restart_window cfg))
         (s\<lparr> restart_count := 1 \<rparr>)"
    have "s' = fst (SvcStop cfg w MonitorThread ?s1)"
      using handler_deny [of cfg w s] False n assms(2) by simp
    then have "last_restart s' = None" using assms(1) by (simp add: SvcStop_fields upd_defs)
    with False c show ?thesis by simp
  qed
qed

theorem first_restart_witness:
  "last_restart (fst (handle_server_restart default_config quiet_world init_service)) = Some 0"
  using first_restart [of init_service
      "fst (handle_server_restart default_config quiet_world init_service)"
      default_config quiet_world]
  by (simp add: init_service_def default_config_def quiet_world_def)

text \<open>
  Claim C10 as stated fails for a base delay above the cap: with a base delay of 600 s
  the first restart waits 300 s.
\<close>

theorem first_restart_capped_counterexample:
  "last_restart init_service = None \<and> restart_delay long_delay_config = 600 \<and>
   sleeps (effects (fst (handle_server_restart long_delay_config quiet_world init_service)))
     = [300] \<and>
   sleeps (effects (fst (handle_server_restart long_delay_config quiet_world init_service)))
     \<noteq> [restart_delay long_delay_config]"
  by (simp add: handle_server_restart_def restart_prepare_def sleep_def sleep_limit_def relaunch_def
      start_server_def new_restart_count_def backoff_delay_def upd_defs Let_def
      default_config_def quiet_world_def init_service_def long_delay_config_def)

lemma td_seconds_in_window:
  assumes "0 \<le> d" and "d < k * 1000000"
  shows "td_seconds d < k"
proof (cases "d < 86400000000")
  case True
  then show ?thesis
    using assms td_seconds_within_day [of d] whole_seconds_less [of d k] by simp
next
  case False
  then have "86400 * 1000000 < k * 1000000" using assms(2) by simp
  then have "86400 < k" by simp
  moreover have "td_seconds d < 86400" by (simp add: td_seconds_def)
  ultimately show ?thesis by simp
qed

lemma handler_allowed_step:
  assumes "new_restart_count cfg (clock w) s = n" and "int n \<le> max_restarts cfg"
    and "0 \<le> backoff_delay cfg n" and "launch_res w = Spawned p"
    and "s' = fst (handle_server_restart cfg w s)"
  shows "restart_count s' = n \<and> last_restart s' = Some (clock w) \<and>
    sleeps (effects s') = sleeps (effects s) @ [backoff_delay cfg n] \<and>
    launches (effects s') = launches (effects s) @ [p] \<and>
    is_alive s' = is_alive s \<and> stop_event s' = stop_event s"
proof -
  let ?d = "backoff_delay cfg n"
  let ?s1 = "log_info (RestartingIn ?d n) (s\<lparr> restart_count := n \<rparr>)"
  have "handle_server_restart cfg w s = (relaunch w (clock w) (emit (Sleep ?d) ?s1), None)"
    using handler_allow [of cfg w s] assms(1-3) by (simp add: Let_def)
  then have s': "s' = relaunch w (clock w) (emit (Sleep ?d) ?s1)" using assms(5) by simp
  show ?thesis
    using assms(4)
    by (simp add: s' relaunch_fields relaunch_sleeps relaunch_launches relaunch_last_restart
        upd_defs sleeps_append launches_append)
qed

lemma handler_denied_step:
  assumes "int (new_restart_count cfg (clock w) s) > max_restarts cfg"
    and "s' = fst (handle_server_restart cfg w s)"
  shows "restart_count s' = new_restart_count cfg (clock w) s \<and>
    last_restart s' = last_restart s \<and>
    sleeps (effects s') = sleeps (effects s) \<and>
    launches (effects s') = launches (effects s) \<and>
    \<not> is_alive s' \<and> stop_event s'"
  using assms handler_deny [of cfg w s]
  by (simp add: SvcStop_fields SvcStop_trace upd_defs)

lemma count_in_window:
  assumes "last_restart s = Some t" and "0 \<le> clock w - t"
    and "clock w - t < restart_window cfg * 1000000"
  shows "new_restart_count cfg (clock w) s = restart_count s + 1"
  using assms td_seconds_in_window [of "clock w - t" "restart_window cfg"]
  by (simp add: new_restart_count_def)

subsection \<open>Six rapid crashes\<close>

text \<open>
  Claim C3. With a base delay of 30 and at most 5 restarts, six crashes of a service
  without a recorded restart, in chronological order, all within one restart window and
  each followed by a successful relaunch, make the handler sleep 30, 60, 120, 240 and
  300 seconds for the first five; the sixth is denied: no further sleep or launch
  happens and the service is stopped.
\<close>

theorem six_rapid_crashes:
  assumes cfg: "restart_delay cfg = 30" "max_restarts cfg = 5"
    and fresh: "last_restart s = None"
    and launch: "launch_res w1 = Spawned p1" "launch_res w2 = Spawned p2"
      "launch_res w3 = Spawned p3" "launch_res w4 = Spawned p4" "launch_res w5 = Spawned p5"
    and order: "clock w1 \<le> clock w2" "clock w2 \<le> clock w3" "clock w3 \<le> clock w4"
      "clock w4 \<le> clock w5" "clock w5 \<le> clock w6"
    and window: "clock w6 - clock w1 < restart_window cfg * 1000000"
  shows "sleeps (effects (crash_sequence cfg [w1, w2, w3, w4, w5] s)) =
           sleeps (effects s) @ [30, 60, 120, 240, 300] \<and>
         launches (effects (crash_sequence cfg [w1, w2, w3, w4, w5] s)) =
           launches (effects s) @ [p1, p2, p3, p4, p5] \<and>
         sleeps (effects (crash_sequence cfg [w1, w2, w3, w4, w5, w6] s)) =
           sleeps (effects s) @ [30, 60, 120, 240, 300] \<and>
         launches (effects (crash_sequence cfg [w1, w2, w3, w4, w5, w6] s)) =
           launches (effects s) @ [p1, p2, p3, p4, p5] \<and>
         restart_count (crash_sequence cfg [w1, w2, w3, w4, w5, w6] s) = 6 \<and>
         \<not> is_alive (crash_sequence cfg [w1, w2, w3, w4, w5, w6] s) \<and>
         stop_event (crash_sequence cfg [w1, w2, w3, w4, w5, w6] s)"
proof -
  define s1 where "s1 = fst (handle_server_restart cfg w1 s)"
  define s2 where "s2 = fst (handle_server_restart cfg w2 s1)"
  define s3 where "s3 = fst (handle_server_restart cfg w3 s2)"
  define s4 where "s4 = fst (handle_server_restart cfg w4 s3)"
  define s5 where "s5 = fst (handle_server_restart cfg w5 s4)"
  define s6 where "s6 = fst (handle_server_restart cfg w6 s5)"
  have bd: "backoff_delay cfg 1 = 30" "backoff_delay cfg 2 = 60" "backoff_delay cfg 3 = 120"
    "backoff_delay cfg 4 = 240" "backoff_delay cfg 5 = 300"
    using cfg(1) by (simp_all add: backoff_delay_def)
  have n1: "new_restart_count cfg (clock w1) s = 1"
    using fresh by (simp add: new_restart_count_def)
  have r1: "restart_count s1 = 1 \<and> last_restart s1 = Some (clock w1) \<and>
      sleeps (effects s1) = sleeps (effects s) @ [30] \<and>
      launches (effects s1) = launches (effects s) @ [p1]"
    using handler_allowed_step [OF n1 _ _ launch(1) s1_def] cfg(2) bd by simp
  have n2: "new_restart_count cfg (clock w2) s1 = 2"
    using count_in_window [of s1 "clock w1" w2 cfg] r1 order window by simp
  have r2: "restart_count s2 = 2 \<and> last_restart s2 = Some (clock w2) \<and>
      sleeps (effects s2) = sleeps (effects s) @ [30, 60] \<and>
      launches (effects s2) = launches (effects s) @ [p1, p2]"
    using handler_allowed_step [OF n2 _ _ launch(2) s2_def] cfg(2) bd r1 by simp
  have n3: "new_restart_count cfg (clock w3) s2 = 3"
    using count_in_window [of s2 "clock w2" w3 cfg] r2 order window by simp
  have r3: "restart_count s3 = 3 \<and> last_restart s3 = Some (clock w3) \<and>
      sleeps (effects s3) = sleeps (effects s) @ [30, 60, 120] \<and>
      launches (effects s3) = launches (effects s) @ [p1, p2, p3]"
    using handler_allowed_step [OF n3 _ _ launch(3) s3_def] cfg(2) bd r2 by simp
  have n4: "new_restart_count cfg (clock w4) s3 = 4"
    using count_in_window [of s3 "clock w3" w4 cfg] r3 order window by simp
  have r4: "restart_count s4 = 4 \<and> last_restart s4 = Some (clock w4) \<and>
      sleeps (effects s4) = sleeps (effects s) @ [30, 60, 120, 240] \<and>
      launches (effects s4) = launches (effects s) @ [p1, p2, p3, p4]"
    using handler_allowed_step [OF n4 _ _ launch(4) s4_def] cfg(2) bd r3 by simp
  have n5: "new_restart_count cfg (clock w5) s4 = 5"
    using count_in_window [of s4 "clock w4" w5 cfg] r4 order window by simp
  have r5: "restart_count s5 = 5 \<and> last_restart s5 = Some (clock w5) \<and>
      sleeps (effects s5) = sleeps (effects s) @ [30, 60, 120, 240, 300] \<and>
      launches (effects s5) = launches (effects s) @ [p1, p2, p3, p4, p5]"
    using handler_allowed_step [OF n5 _ _ launch(5) s5_def] cfg(2) bd r4 by simp
  have n6: "new_restart_count cfg (clock w6) s5 = 6"
    using count_in_window [of s5 "clock w5" w6 cfg] r5 order window by simp
  have r6: "restart_count s6 = 6 \<and>
      sleeps (effects s6) = sleeps (effects s5) \<and>
      launches (effects s6) = launches (effects s5) \<and> \<not> is_alive s6 \<and> stop_event s6"
    using handler_denied_step [of cfg w6 s5 s6] n6 cfg(2) s6_def by simp
  have "crash_sequence cfg [w1, w2, w3, w4, w5] s = s5"
    "crash_sequence cfg [w1, w2, w3, w4, w5, w6] s = s6"
    by (simp_all add: s1_def s2_def s3_def s4_def s5_def s6_def)
  then show ?thesis using r5 r6 by simp
qed

theorem six_rapid_crashes_witness:
  "sleeps (effects (crash_sequence default_config
      [crash_at 0 11, crash_at 100000000 12, crash_at 300000000 13, crash_at 600000000 14,
       crash_at 1000000000 15, crash_at 1500000000 16] init_service)) = [30, 60, 120, 240, 300]
   \<and> \<not> is_alive (crash_sequence default_config
      [crash_at 0 11, crash_at 100000000 12, crash_at 300000000 13, crash_at 600000000 14,
       crash_at 1000000000 15, crash_at 1500000000 16] init_service)"
  using six_rapid_crashes [of default_config init_service "crash_at 0 11" 11
      "crash_at 100000000 12" 12 "crash_at 300000000 13" 13 "crash_at 600000000 14" 14
      "crash_at 1000000000 15" 15 "crash_at 1500000000 16"]
  by (simp add: default_config_def init_service_def crash_at_def quiet_world_def)

subsection \<open>Stopping\<close>

text \<open>
  Claim C5 fails on the code. The handler does not look at \<open>is_alive\<close> or at the stop event
  after \<^verbatim>\<open>time.sleep\<close>: when the control thread runs \<^verbatim>\<open>SvcStop\<close> while the monitor thread
  sleeps before a restart, the stop completes (stop event set, \<open>is_alive\<close> false, worker
  4242 terminated, "Service stopped" logged) and the monitor thread then launches the
  new worker 4343.
\<close>

theorem launch_after_stop:
  "restart_with_stop_during_sleep default_config (crash_at 0 4343) stop_world running_service =
     \<lparr> is_alive = False, stop_event = True, server_process = Some 4343,
       monitor_thread = True, restart_count = 1, last_restart = Some 0,
       log = [(Info, RestartingIn 30 1), (Info, StopRequested), (Info, AttemptGraceful),
              (Info, ShutGracefully), (Info, ServiceStopped), (Info, StartingServer),
              (Info, ServerStarted 4343), (Info, RestartedOK 1)],
       effects = [Sleep 30, ReportStopPending, SetEvent, Terminate 4242, WaitProc 4242 15,
                  Join 5, Kill 4242, Launch 4343] \<rparr>"
  by (simp add: restart_with_stop_during_sleep_def restart_prepare_def sleep_def sleep_limit_def relaunch_def
      start_server_def SvcStop_def shutdown_server_def thread_is_alive_def
      new_restart_count_def backoff_delay_def upd_defs Let_def
      default_config_def quiet_world_def crash_at_def stop_world_def
      running_service_def init_service_def)

text \<open>
  Claim C7. A stop request from the control thread, for a worker that accepts the
  terminate signal and does not exit within \<open>shutdown_timeout\<close> (15 by default): \<^verbatim>\<open>kill()\<close>
  is called, the escalation is logged as a warning, an error entry appears only if
  \<^verbatim>\<open>kill()\<close> itself raises, and \<^verbatim>\<open>SvcStop\<close> returns normally with "Service stopped" logged
  and \<open>is_alive\<close> false. Time is not part of the state; the only blocking calls of the
  stop are the wait bounded by \<open>shutdown_timeout\<close> and the join bounded by 5 seconds.
\<close>

theorem stop_timeout_escalates:
  assumes "server_process s = Some p" and "terminate_res w = None"
    and "wait_res w = Some TimeoutExpired"
    and "SvcStop cfg w ControlThread s = (s', r)"
  shows "effects s' = effects s @
           [ReportStopPending, SetEvent, Terminate p, WaitProc p (shutdown_timeout cfg), Kill p] @
           (if monitor_thread s \<and> monitor_running w then [Join 5] else []) \<and>
         log s' = log s @
           [(Info, StopRequested), (Info, AttemptGraceful), (Warning, ForcingTermination)] @
           (case kill_res w of None \<Rightarrow> [] | Some e \<Rightarrow> [(Error, ShutdownError e)]) @
           [(Info, ServiceStopped)] \<and>
         \<not> is_alive s' \<and> stop_event s' \<and> r = None"
  using assms
  by (auto simp add: SvcStop_def shutdown_server_def thread_is_alive_def upd_defs Let_def
      split: option.splits if_splits)

theorem stop_timeout_escalates_witness:
  "log (fst (SvcStop default_config hung_world ControlThread running_service)) =
     [(Info, StopRequested), (Info, AttemptGraceful), (Warning, ForcingTermination),
      (Info, ServiceStopped)] \<and>
   effects (fst (SvcStop default_config hung_world ControlThread running_service)) =
     [ReportStopPending, SetEvent, Terminate 4242, WaitProc 4242 15, Kill 4242, Join 5]"
  using stop_timeout_escalates [of running_service 4242 hung_world default_config
      "fst (SvcStop default_config hung_world ControlThread running_service)"
      "snd (SvcStop default_config hung_world ControlThread running_service)"]
  by (simp add: running_service_def init_service_def hung_world_def stop_world_def
      quiet_world_def default_config_def)

lemma shutdown_server_effects:
  "\<exists>es. effects (shutdown_server cfg w p s) = effects s @ Terminate p # es"
  by (simp add: shutdown_server_def upd_defs Let_def split: option.splits)

lemma SvcStop_signals:
  "\<exists>es. effects (fst (SvcStop cfg w c s)) =
     effects s @ ReportStopPending # SetEvent #
       (case server_process s of None \<Rightarrow> es | Some p \<Rightarrow> Terminate p # es)"
proof (cases "server_process s")
  case None
  then show ?thesis by (simp add: SvcStop_def upd_defs Let_def)
next
  case (Some p)
  let ?t = "(emit SetEvent (emit ReportStopPending (log_info StopRequested s)))
              \<lparr> stop_event := True, is_alive := False \<rparr>"
  obtain es where "effects (shutdown_server cfg w p ?t) = effects ?t @ Terminate p # es"
    using shutdown_server_effects by blast
  with Some show ?thesis by (simp add: SvcStop_def upd_defs Let_def)
qed

lemma SvcStop_attempts:
  assumes "server_process s = Some p"
  shows "\<exists>es. log (fst (SvcStop cfg w c s)) =
     log s @ (Info, StopRequested) # (Info, AttemptGraceful) # es"
proof -
  let ?t = "(emit SetEvent (emit ReportStopPending (log_info StopRequested s)))
              \<lparr> stop_event := True, is_alive := False \<rparr>"
  obtain es where "log (shutdown_server cfg w p ?t) = log ?t @ (Info, AttemptGraceful) # es"
    using shutdown_server_log by blast
  with assms show ?thesis by (simp add: SvcStop_def upd_defs Let_def)
qed

lemma SvcStop_worker_gone:
  assumes "server_process s = Some p" and "terminate_res w = None" and "wait_res w = None"
  shows "effects (fst (SvcStop cfg w ControlThread s)) =
      effects s @ [ReportStopPending, SetEvent, Terminate p, WaitProc p (shutdown_timeout cfg)] @
        (if monitor_thread s \<and> monitor_running w then [Join 5] else [])"
    and "log (fst (SvcStop cfg w ControlThread s)) =
      log s @ [(Info, StopRequested), (Info, AttemptGraceful), (Info, ShutGracefully),
               (Info, ServiceStopped)]"
  using assms
  by (simp_all add: SvcStop_def shutdown_server_def thread_is_alive_def upd_defs Let_def)

text \<open>
  Claim C8, as amended. \<^verbatim>\<open>SvcStop\<close> on a stopped service (\<open>is_alive\<close> false) leaves it
  stopped, keeps the process handle, the monitor thread, the restart count and the last
  restart time, and launches nothing. But it is not a no-op: it reports the pending stop
  and sets the stop event again, sends the terminate signal to the worker handle it
  still holds, and logs again, first of all "Service stop requested" and, for a held
  handle, "Attempting graceful server shutdown". When the control thread stops a service
  whose worker is gone already, the calls and the four log entries are exactly those of
  a first stop.
\<close>

theorem stop_again_logs:
  assumes "\<not> is_alive s" and "s' = fst (SvcStop cfg w caller s)"
  shows "\<not> is_alive s' \<and> stop_event s' \<and> server_process s' = server_process s \<and>
    monitor_thread s' = monitor_thread s \<and> restart_count s' = restart_count s \<and>
    last_restart s' = last_restart s \<and>
    launches (effects s') = launches (effects s) \<and>
    (\<exists>rest. log s' = log s @ (Info, StopRequested) # rest) \<and>
    (\<exists>rest. effects s' = effects s @ ReportStopPending # SetEvent # rest) \<and>
    (\<forall>p. server_process s = Some p \<longrightarrow>
       (\<exists>rest. effects s' = effects s @ ReportStopPending # SetEvent # Terminate p # rest) \<and>
       (\<exists>rest. log s' = log s @ (Info, StopRequested) # (Info, AttemptGraceful) # rest)) \<and>
    (\<forall>p. server_process s = Some p \<and> terminate_res w = None \<and> wait_res w = None \<and>
         caller = ControlThread \<longrightarrow>
       effects s' = effects s @
         [ReportStopPending, SetEvent, Terminate p, WaitProc p (shutdown_timeout cfg)] @
         (if monitor_thread s \<and> monitor_running w then [Join 5] else []) \<and>
       log s' = log s @ [(Info, StopRequested), (Info, AttemptGraceful),
                         (Info, ShutGracefully), (Info, ServiceStopped)])"
proof -
  have fields: "\<not> is_alive s'" "stop_event s'" "server_process s' = server_process s"
    "monitor_thread s' = monitor_thread s" "restart_count s' = restart_count s"
    "last_restart s' = last_restart s" "launches (effects s') = launches (effects s)"
    using assms(2) by (simp_all add: SvcStop_fields SvcStop_trace)
  have lg: "\<exists>rest. log s' = log s @ (Info, StopRequested) # rest"
    using assms(2) SvcStop_log by simp
  obtain es where es: "effects s' =
     effects s @ ReportStopPending # SetEvent #
       (case server_process s of None \<Rightarrow> es | Some p \<Rightarrow> Terminate p # es)"
    using assms(2) SvcStop_signals [of cfg w caller s] by auto
  have sig: "\<exists>rest. effects s' = effects s @ ReportStopPending # SetEvent # rest"
    using es by blast
  have held: "(\<exists>rest. effects s' = effects s @ ReportStopPending # SetEvent # Terminate p # rest) \<and>
       (\<exists>rest. log s' = log s @ (Info, StopRequested) # (Info, AttemptGraceful) # rest)"
    if "server_process s = Some p" for p
    using that es assms(2) SvcStop_attempts [of s p cfg w caller] by simp
  have gone: "effects s' = effects s @
         [ReportStopPending, SetEvent, Terminate p, WaitProc p (shutdown_timeout cfg)] @
         (if monitor_thread s \<and> monitor_running w then [Join 5] else []) \<and>
       log s' = log s @ [(Info, StopRequested), (Info, AttemptGraceful),
                         (Info, ShutGracefully), (Info, ServiceStopped)]"
    if "server_process s = Some p \<and> terminate_res w = None \<and> wait_res w = None \<and>
         caller = ControlThread" for p
    using that assms(2) SvcStop_worker_gone [of s p w cfg] by simp
  show ?thesis using fields lg sig held gone by blast
qed

lemma stopped_service_eq:
  "stopped_service =
     \<lparr> is_alive = False, stop_event = True, server_process = Some 4242,
       monitor_thread = True, restart_count = 0, last_restart = None,
       log = [(Info, StopRequested), (Info, AttemptGraceful), (Info, ShutGracefully),
              (Info, ServiceStopped)],
       effects = [ReportStopPending, SetEvent, Terminate 4242, WaitProc 4242 15, Join 5] \<rparr>"
  by (simp add: stopped_service_def SvcStop_def shutdown_server_def thread_is_alive_def
      upd_defs Let_def default_config_def quiet_world_def stop_world_def
      running_service_def init_service_def)

theorem stop_again_logs_witness:
  "effects (fst (SvcStop default_config stop_world ControlThread stopped_service)) =
     effects stopped_service @
       [ReportStopPending, SetEvent, Terminate 4242, WaitProc 4242 15, Join 5]"
  using stop_again_logs [of stopped_service
      "fst (SvcStop default_config stop_world ControlThread stopped_service)"
      default_config stop_world ControlThread]
  by (simp add: stopped_service_eq stop_world_def quiet_world_def default_config_def)

text \<open>
  Claim C8 as stated fails: a second stop request appends four log entries (and signals
  the worker again), so the state is not the one before.
\<close>

theorem stop_again_counterexample:
  "\<not> is_alive stopped_service \<and>
   log (fst (SvcStop default_config stop_world ControlThread stopped_service)) =
     log stopped_service @
       [(Info, StopRequested), (Info, AttemptGraceful), (Info, ShutGracefully),
        (Info, ServiceStopped)] \<and>
   fst (SvcStop default_config stop_world ControlThread stopped_service) \<noteq> stopped_service"
  by (simp add: stopped_service_eq SvcStop_def shutdown_server_def thread_is_alive_def
      upd_defs Let_def default_config_def quiet_world_def stop_world_def)

lemma policy_entries_simps:
  "policy_entries [] = []"
  "policy_entries (e # es) =
     (if policy_message (snd e) then e # policy_entries es else policy_entries es)"
  "policy_entries (xs @ ys) = policy_entries xs @ policy_entries ys"
  by (simp_all add: policy_entries_def)

lemma shutdown_server_policy:
  "policy_entries (log (shutdown_server cfg w p s)) = policy_entries (log s)"
  by (simp add: shutdown_server_def upd_defs Let_def policy_entries_simps
      split: option.splits)

lemma SvcStop_policy:
  "policy_entries (log (fst (SvcStop cfg w c s))) = policy_entries (log s)"
  by (simp add: SvcStop_def shutdown_server_policy upd_defs Let_def policy_entries_simps
      split: option.splits)

subsection \<open>Worker exit without auto-restart\<close>

text \<open>
  Claim C6. When an iteration of the monitor loop finds that the worker has exited and
  auto-restart is disabled, it goes straight to \<^verbatim>\<open>SvcStop\<close>: the stop event is set and
  \<open>is_alive\<close> is false, the restart count and the last restart time are untouched, no
  entry of the restart handler is logged, nothing is launched, and the monitor loop ends
  with this iteration.
\<close>

theorem exit_without_auto_restart:
  assumes "server_process s = Some p" and "poll_res w = Inr (Some code)"
    and "\<not> auto_restart cfg" and "monitor_iteration cfg w s = (s', c)"
  shows "\<not> is_alive s' \<and> stop_event s' \<and>
    restart_count s' = restart_count s \<and> last_restart s' = last_restart s \<and>
    launches (effects s') = launches (effects s) \<and>
    policy_entries (log s') = policy_entries (log s) \<and>
    (\<exists>rest. log s' = log s @
       (Error, ServerTerminated code) # (Info, AutoRestartDisabled) #
       (Info, StopRequested) # rest) \<and>
    (is_alive s \<longrightarrow> monitor_loop cfg (w # ws) s = Some s')"
proof -
  let ?s0 = "log_info AutoRestartDisabled (log_error (ServerTerminated code) s)"
  let ?X = "SvcStop cfg w MonitorThread ?s0"
  obtain es where es: "log (fst ?X) = log ?s0 @ (Info, StopRequested) # es"
    using SvcStop_log by blast
  have it: "monitor_iteration cfg w s =
      (case snd ?X of
         Some e \<Rightarrow> (emit (Sleep 30) (log_error (MonitorError e) (fst ?X)), Continue)
       | None \<Rightarrow> (fst ?X, Break))"
    using assms(1-3)
    by (simp add: monitor_iteration_def monitor_try_def Let_def case_prod_beta
        split: option.splits)
  have X: "\<not> is_alive (fst ?X)" "stop_event (fst ?X)"
    "restart_count (fst ?X) = restart_count s" "last_restart (fst ?X) = last_restart s"
    "launches (effects (fst ?X)) = launches (effects s)"
    by (simp_all add: SvcStop_fields SvcStop_trace upd_defs)
  have P: "policy_entries (log (fst ?X)) = policy_entries (log s)"
    using SvcStop_policy [of cfg w MonitorThread ?s0]
    by (simp add: upd_defs policy_entries_simps)
  have L: "log (fst ?X) = log s @
       (Error, ServerTerminated code) # (Info, AutoRestartDisabled) #
       (Info, StopRequested) # es"
    using es by (simp add: upd_defs)
  show ?thesis
  proof (cases "snd ?X")
    case None
    with it assms(4) have s': "s' = fst ?X" and c: "c = Break" by simp_all
    have "is_alive s \<longrightarrow> monitor_loop cfg (w # ws) s = Some s'"
      using assms(4) c by simp
    then show ?thesis using X P L unfolding s' by blast
  next
    case (Some e)
    with it assms(4) have s': "s' = emit (Sleep 30) (log_error (MonitorError e) (fst ?X))"
      and c: "c = Continue" by simp_all
    have dead: "\<not> is_alive s'" using X(1) by (simp add: s' upd_defs)
    have loop: "is_alive s \<longrightarrow> monitor_loop cfg (w # ws) s = Some s'"
      using assms(4) c dead by (cases ws) simp_all
    have X': "stop_event s'" "restart_count s' = restart_count s"
      "last_restart s' = last_restart s" "launches (effects s') = launches (effects s)"
      using X by (simp_all add: s' upd_defs launches_append)
    have P': "policy_entries (log s') = policy_entries (log s)"
      using P by (simp add: s' upd_defs policy_entries_simps)
    have L': "log s' = log s @
       (Error, ServerTerminated code) # (Info, AutoRestartDisabled) #
       (Info, StopRequested) # (es @ [(Error, MonitorError e)])"
      using L by (simp add: s' upd_defs)
    show ?thesis using dead loop X' P' L' by blast
  qed
qed

theorem exit_without_auto_restart_witness:
  "monitor_loop no_restart_config [crash_at 0 4343] running_service =
     Some (fst (monitor_iteration no_restart_config (crash_at 0 4343) running_service)) \<and>
   restart_count (fst (monitor_iteration no_restart_config (crash_at 0 4343) running_service)) = 0"
  using exit_without_auto_restart [of running_service 4242 "crash_at 0 4343" 1
      no_restart_config
      "fst (monitor_iteration no_restart_config (crash_at 0 4343) running_service)"
      "snd (monitor_iteration no_restart_config (crash_at 0 4343) running_service)" "[]"]
  by (simp add: running_service_def init_service_def crash_at_def quiet_world_def
      no_restart_config_def default_config_def)
















subsection \<open>Errors while monitoring\<close>



end
